theory Spec2Isabelle
  imports
    Complex_Main
    "HOL-Library.Product_Lexorder"
    "HOL-Library.Char_ord"
    "HOL-Library.List_Lexorder"
    "HOL-Library.Sublist"
begin

section \<open>The data store\<close>

text \<open>
  The relational store behind \<^verbatim>\<open>db.py\<close> holds the tables \<^verbatim>\<open>tilanteet\<close> (rescue events) and
  \<^verbatim>\<open>vakiluvut\<close> (population figures). A timestamp is a calendar date with the microsecond of
  the day, compared field by field as Python's \<^verbatim>\<open>datetime\<close> does: year, month, day,
  microsecond of the day. The column \<^verbatim>\<open>hake\<close> may be NULL; the other columns are taken to
  be filled.
\<close>

type_synonym date = "nat \<times> nat \<times> nat"
type_synonym timestamp = "nat \<times> nat \<times> nat \<times> nat"

record tilanne =
  t_timestamp :: timestamp
  t_event_type :: string
  t_municipality :: string
  t_hake :: "string option"

record vakiluvut_row =
  v_alue :: string
  v_vuosi :: int
  v_vakiluku :: nat

record store =
  tilanteet :: "tilanne list"
  vakiluvut :: "vakiluvut_row list"

text \<open>A database that cannot be reached is \<open>None\<close>.\<close>

type_synonym db = "store option"

subsection \<open>Statements and bound parameters\<close>

text \<open>
  The modules assemble SQL text with named placeholders. The text is represented by its
  syntax tree: the two fixed statements of \<^verbatim>\<open>load_municipality_data\<close>, and the two statements
  of \<^verbatim>\<open>process_rescue_events\<close>, which consist of the fixed
  \<^verbatim>\<open>timestamp BETWEEN :start_date AND :end_date\<close> followed by the \<^verbatim>\<open>AND col IN (...)\<close> parts that
  were appended, each with its list of placeholder names. A placeholder
  \<^verbatim>\<open>:event_type_3\<close> is \<open>Event_type_i 3\<close>.
\<close>

datatype pname = Start_date | End_date | Event_type_i nat | Municipality_i nat | Hake_i nat

datatype pvalue = Datetime timestamp | Text string

datatype column = C_event_type | C_municipality | C_hake

type_synonym in_part = "column \<times> pname list"

datatype sql =
    Selected_query "in_part list"
  | Total_query "in_part list"
  | Population_query
  | Incidents_query

record incident_row =
  municipality :: string
  event_type :: string
  incident_count :: nat

text \<open>
  A data frame is the list of its rows; the constructor tells which columns it has.
  \<open>Empty_frame\<close> is \<^verbatim>\<open>pd.DataFrame()\<close>, a frame with no columns and no rows.
\<close>

datatype frame =
    Empty_frame
  | Selected_rows "(timestamp \<times> string \<times> string option) list"
  | Total_rows "(timestamp \<times> string option) list"
  | Population_rows "(string \<times> nat) list"
  | Incident_rows "incident_row list"

fun frame_empty :: "frame \<Rightarrow> bool" where
  "frame_empty Empty_frame = True"
| "frame_empty (Selected_rows rs) = (rs = [])"
| "frame_empty (Total_rows rs) = (rs = [])"
| "frame_empty (Population_rows rs) = (rs = [])"
| "frame_empty (Incident_rows rs) = (rs = [])"

datatype error =
    SQLAlchemyError
  | NameError string
  | KeyError string
  | ValueError
  | OverflowError

subsection \<open>What the database answers\<close>

text \<open>
  The meaning of the four statements, from SQL: a placeholder without a bound value of the
  right kind is an error of the statement; a NULL column is in no \<^verbatim>\<open>IN\<close> list; rows come in
  the order of the table; \<^verbatim>\<open>GROUP BY\<close> groups come in the order of their first row.
\<close>

fun column_value :: "column \<Rightarrow> tilanne \<Rightarrow> string option" where
  "column_value C_event_type r = Some (t_event_type r)"
| "column_value C_municipality r = Some (t_municipality r)"
| "column_value C_hake r = t_hake r"

definition bind_text :: "(pname \<rightharpoonup> pvalue) \<Rightarrow> pname \<Rightarrow> string option" where
  "bind_text env n = (case env n of Some (Text s) \<Rightarrow> Some s | _ \<Rightarrow> None)"

definition bind_datetime :: "(pname \<rightharpoonup> pvalue) \<Rightarrow> pname \<Rightarrow> timestamp option" where
  "bind_datetime env n = (case env n of Some (Datetime t) \<Rightarrow> Some t | _ \<Rightarrow> None)"

definition bind_in :: "(pname \<rightharpoonup> pvalue) \<Rightarrow> in_part \<Rightarrow> (column \<times> string list) option" where
  "bind_in env p = map_option (Pair (fst p)) (those (map (bind_text env) (snd p)))"

definition in_matches :: "tilanne \<Rightarrow> column \<times> string list \<Rightarrow> bool" where
  "in_matches r f = (case column_value (fst f) r of None \<Rightarrow> False | Some v \<Rightarrow> v \<in> set (snd f))"

definition where_rows :: "store \<Rightarrow> (pname \<rightharpoonup> pvalue) \<Rightarrow> in_part list \<Rightarrow> tilanne list option" where
  "where_rows s env parts =
     (case (bind_datetime env Start_date, bind_datetime env End_date,
            those (map (bind_in env) parts)) of
        (Some lo, Some hi, Some fs) \<Rightarrow>
          Some (filter (\<lambda>r. lo \<le> t_timestamp r \<and> t_timestamp r \<le> hi \<and> list_all (in_matches r) fs)
                  (tilanteet s))
      | _ \<Rightarrow> None)"

definition event_count :: "store \<Rightarrow> string \<times> string \<Rightarrow> nat" where
  "event_count s k = count_list (map (\<lambda>r. (t_municipality r, t_event_type r)) (tilanteet s)) k"

definition incident_groups :: "store \<Rightarrow> incident_row list" where
  "incident_groups s =
     map (\<lambda>k. \<lparr>municipality = fst k, event_type = snd k, incident_count = event_count s k\<rparr>)
       (filter (\<lambda>k. event_count s k > 100)
          (rev (remdups (rev (map (\<lambda>r. (t_municipality r, t_event_type r)) (tilanteet s))))))"

fun run_sql :: "store \<Rightarrow> sql \<Rightarrow> (pname \<rightharpoonup> pvalue) \<Rightarrow> error + frame" where
  "run_sql s (Selected_query parts) env =
     (case where_rows s env parts of
        None \<Rightarrow> Inl SQLAlchemyError
      | Some rs \<Rightarrow> Inr (Selected_rows (map (\<lambda>r. (t_timestamp r, t_event_type r, t_hake r)) rs)))"
| "run_sql s (Total_query parts) env =
     (case where_rows s env parts of
        None \<Rightarrow> Inl SQLAlchemyError
      | Some rs \<Rightarrow> Inr (Total_rows (map (\<lambda>r. (t_timestamp r, t_hake r)) rs)))"
| "run_sql s Population_query env =
     Inr (Population_rows (map (\<lambda>r. (v_alue r, v_vakiluku r))
                             (filter (\<lambda>r. v_vuosi r = 2024) (vakiluvut s))))"
| "run_sql s Incidents_query env = Inr (Incident_rows (incident_groups s))"

section \<open>The query layer: \<^verbatim>\<open>db.py\<close>\<close>

text \<open>
  The names bound at module level in \<^verbatim>\<open>db.py\<close>: its imports and its functions. The handler of
  \<^verbatim>\<open>execute_query\<close> evaluates \<^verbatim>\<open>st.error(...)\<close> before it returns the empty frame, and looking
  a name up that the module does not bind raises \<^verbatim>\<open>NameError\<close>.
\<close>

definition db_globals :: "string list" where
  "db_globals = [''load_dotenv'', ''os'', ''pd'', ''create_engine'', ''text'',
                 ''SQLAlchemyError'', ''get_engine'', ''execute_query'',
                 ''get_filter_options'', ''load_data'']"

definition global_name :: "string \<Rightarrow> error + unit" where
  "global_name n = (if n \<in> set db_globals then Inr () else Inl (NameError n))"

text \<open>
  \<^verbatim>\<open>execute_query(query, params)\<close>. The list of statements that reached the store is passed
  along, so that a run shows which queries it issued.
\<close>

type_synonym params = "(pname \<times> pvalue) list"
type_synonym issued = "(sql \<times> params option) list"

definition dict :: "params \<Rightarrow> (pname \<rightharpoonup> pvalue)" where
  "dict ps = map_of (rev ps)"

definition except_SQLAlchemyError :: "error + frame" where
  "except_SQLAlchemyError =
     (case global_name ''st'' of Inl e \<Rightarrow> Inl e | Inr _ \<Rightarrow> Inr Empty_frame)"

definition execute_query :: "db \<Rightarrow> sql \<Rightarrow> params option \<Rightarrow> issued \<Rightarrow> (error + frame) \<times> issued" where
  "execute_query d query ps sent =
     (case d of
        None \<Rightarrow> (except_SQLAlchemyError, sent)
      | Some s \<Rightarrow>
          (case run_sql s query (case ps of None \<Rightarrow> Map.empty | Some p \<Rightarrow> dict p) of
             Inl SQLAlchemyError \<Rightarrow> (except_SQLAlchemyError, sent @ [(query, ps)])
           | Inl e \<Rightarrow> (Inl e, sent @ [(query, ps)])
           | Inr df \<Rightarrow> (Inr df, sent @ [(query, ps)])))"

section \<open>The cached query function of \<^verbatim>\<open>vasteet.py\<close>\<close>

text \<open>
  \<^verbatim>\<open>functools.lru_cache(maxsize=128)\<close>: the key is the pair of arguments as given, the entries
  are kept most recently used first, a hit moves its entry to the front, a miss calls the
  function and stores its result, dropping the least recently used entry when the cache is
  full. A call that raises stores nothing.
\<close>

type_synonym cache_key = "sql \<times> params option"
type_synonym cache = "(cache_key \<times> frame) list"

record session =
  cache :: cache
  issued :: issued

definition maxsize :: nat where
  "maxsize = 128"

definition cached_execute_query ::
  "db \<Rightarrow> sql \<Rightarrow> params option \<Rightarrow> session \<Rightarrow> (error + frame) \<times> session" where
  "cached_execute_query d query params_tuple st =
     (case map_of (cache st) (query, params_tuple) of
        Some df \<Rightarrow>
          (Inr df, st\<lparr>cache := ((query, params_tuple), df)
                              # filter (\<lambda>e. fst e \<noteq> (query, params_tuple)) (cache st)\<rparr>)
      | None \<Rightarrow>
          (let params = (case params_tuple of
                           None \<Rightarrow> None
                         | Some p \<Rightarrow> if p = [] then None else Some p)
           in case execute_query d query params (issued st) of
                (Inl e, sent) \<Rightarrow> (Inl e, st\<lparr>issued := sent\<rparr>)
              | (Inr df, sent) \<Rightarrow>
                  (Inr df, \<lparr>cache = take maxsize (((query, params_tuple), df) # cache st),
                            issued = sent\<rparr>)))"

section \<open>Numbers of the data frames\<close>

text \<open>
  A numeric column holds a finite number, infinity (a positive count divided by zero) or
  NaN (zero divided by zero, or a missing value). Finite numbers are exact rationals here;
  the source computes them in binary floating point. NaN is put below every number, which
  is where the sorting functions of the frame library place it in a descending order.
\<close>

datatype fnum = NaN | Finite rat | Inf

fun fnum_key :: "fnum \<Rightarrow> nat \<times> rat" where
  "fnum_key NaN = (0, 0)"
| "fnum_key (Finite r) = (1, r)"
| "fnum_key Inf = (2, 0)"

instantiation fnum :: linorder
begin

definition less_eq_fnum :: "fnum \<Rightarrow> fnum \<Rightarrow> bool" where
  "less_eq_fnum a b = (fnum_key a \<le> fnum_key b)"

definition less_fnum :: "fnum \<Rightarrow> fnum \<Rightarrow> bool" where
  "less_fnum a b = (fnum_key a < fnum_key b)"

instance
proof
  fix x y z :: fnum
  show "(x < y) = (x \<le> y \<and> \<not> y \<le> x)"
    unfolding less_eq_fnum_def less_fnum_def by (rule less_le_not_le)
  show "x \<le> x"
    unfolding less_eq_fnum_def by (rule order_refl)
  show "x \<le> y \<Longrightarrow> y \<le> z \<Longrightarrow> x \<le> z"
    unfolding less_eq_fnum_def by (rule order_trans)
  show "x \<le> y \<Longrightarrow> y \<le> x \<Longrightarrow> x = y"
    unfolding less_eq_fnum_def by (cases x; cases y) auto
  show "x \<le> y \<or> y \<le> x"
    unfolding less_eq_fnum_def by (rule linear)
qed

end

definition fdiv :: "nat \<Rightarrow> nat \<Rightarrow> fnum" where
  "fdiv a b = (if b = 0 then (if a = 0 then NaN else Inf) else Finite (of_nat a / of_nat b))"

fun ftimes :: "fnum \<Rightarrow> nat \<Rightarrow> fnum" where
  "ftimes (Finite r) k = Finite (r * of_nat k)"
| "ftimes Inf k = (if k = 0 then NaN else Inf)"
| "ftimes NaN k = NaN"

text \<open>\<^verbatim>\<open>round(2)\<close>: to the nearest hundredth, a tie going to the even one.\<close>

definition round_half_even :: "rat \<Rightarrow> int" where
  "round_half_even r =
     (let f = \<lfloor>r\<rfloor>
      in if r - of_int f < 1 / 2 then f
         else if 1 / 2 < r - of_int f then f + 1
         else if even f then f else f + 1)"

fun fround2 :: "fnum \<Rightarrow> fnum" where
  "fround2 (Finite r) = Finite (of_int (round_half_even (r * 100)) / 100)"
| "fround2 x = x"

section \<open>Time buckets\<close>

text \<open>
  The calendar of Python's \<^verbatim>\<open>datetime\<close>: the proleptic Gregorian calendar, years from 1,
  with \<^verbatim>\<open>toordinal\<close> counting days from 0001-01-01 (day 1, a Monday) and \<^verbatim>\<open>weekday\<close>
  0 for Monday.
\<close>

definition is_leap :: "nat \<Rightarrow> bool" where
  "is_leap y = (y mod 4 = 0 \<and> (y mod 100 \<noteq> 0 \<or> y mod 400 = 0))"

definition days_in_month :: "nat \<Rightarrow> nat \<Rightarrow> nat" where
  "days_in_month y m =
     (if m = 2 then (if is_leap y then 29 else 28)
      else if m = 4 \<or> m = 6 \<or> m = 9 \<or> m = 11 then 30 else 31)"

definition year_length :: "nat \<Rightarrow> nat" where
  "year_length y = (if is_leap y then 366 else 365)"

definition valid_date :: "date \<Rightarrow> bool" where
  "valid_date dt = (case dt of (y, m, d) \<Rightarrow>
     1 \<le> y \<and> y \<le> 9999 \<and> 1 \<le> m \<and> m \<le> 12 \<and> 1 \<le> d \<and> d \<le> days_in_month y m)"

definition day_length :: nat where
  "day_length = 86400000000"

definition valid_timestamp :: "timestamp \<Rightarrow> bool" where
  "valid_timestamp t = (case t of (y, m, d, us) \<Rightarrow> valid_date (y, m, d) \<and> us < day_length)"

definition days_before_year :: "nat \<Rightarrow> nat" where
  "days_before_year y = (y - 1) * 365 + (y - 1) div 4 - (y - 1) div 100 + (y - 1) div 400"

definition days_before_month :: "nat \<Rightarrow> nat \<Rightarrow> nat" where
  "days_before_month y m = sum_list (map (days_in_month y) [1..<m])"

definition toordinal :: "date \<Rightarrow> nat" where
  "toordinal dt = (case dt of (y, m, d) \<Rightarrow> days_before_year y + days_before_month y m + d)"

definition weekday :: "date \<Rightarrow> nat" where
  "weekday dt = (toordinal dt + 6) mod 7"

fun prev_day :: "date \<Rightarrow> date" where
  "prev_day (y, m, d) =
     (if 1 < d then (y, m, d - 1)
      else if 1 < m then (y, m - 1, days_in_month y (m - 1))
      else (y - 1, 12, 31))"

definition week_start :: "date \<Rightarrow> date" where
  "week_start dt = (prev_day ^^ weekday dt) dt"

text \<open>
  The four branches of \<^verbatim>\<open>process_rescue_events\<close> that add the column \<^verbatim>\<open>time_group\<close>:
  \<^verbatim>\<open>dt.floor('D')\<close>, and the start times of the periods \<^verbatim>\<open>W\<close> (weeks from Monday to Sunday),
  \<^verbatim>\<open>M\<close> and \<^verbatim>\<open>Y\<close>. Any other label adds no column.
\<close>

definition a_uml :: string where
  "a_uml = [CHR 0xC3, CHR 0xA4]"

definition Paiva :: string where
  "Paiva = ''P'' @ a_uml @ ''iv'' @ a_uml"

fun floor_D :: "timestamp \<Rightarrow> timestamp" where
  "floor_D (y, m, d, us) = (y, m, d, 0)"

fun period_W_start :: "timestamp \<Rightarrow> timestamp" where
  "period_W_start (y, m, d, us) = (case week_start (y, m, d) of (y', m', d') \<Rightarrow> (y', m', d', 0))"

fun period_M_start :: "timestamp \<Rightarrow> timestamp" where
  "period_M_start (y, m, d, us) = (y, m, 1, 0)"

fun period_Y_start :: "timestamp \<Rightarrow> timestamp" where
  "period_Y_start (y, m, d, us) = (y, 1, 1, 0)"

definition time_group :: "string \<Rightarrow> (timestamp \<Rightarrow> timestamp) option" where
  "time_group time_aggregation =
     (if time_aggregation = Paiva then Some floor_D
      else if time_aggregation = ''Viikko'' then Some period_W_start
      else if time_aggregation = ''Kuukausi'' then Some period_M_start
      else if time_aggregation = ''Vuosi'' then Some period_Y_start
      else None)"

section \<open>Frame operations\<close>

text \<open>
  \<^verbatim>\<open>unique()\<close> keeps the first occurrence of each value, in the order of appearance.
  \<^verbatim>\<open>groupby(keys).size().reset_index()\<close> has one row per distinct key, keys ascending, with the
  number of rows of that key.
\<close>

definition unique :: "'a list \<Rightarrow> 'a list" where
  "unique xs = rev (remdups (rev xs))"

definition group_size :: "('k::linorder) list \<Rightarrow> ('k \<times> nat) list" where
  "group_size ks = map (\<lambda>k. (k, count_list ks k)) (sort (remdups ks))"

section \<open>The rate aggregator: \<^verbatim>\<open>process_rescue_events\<close>\<close>

datatype date_arg = Date_str string | Date_obj date

text \<open>
  The start and the end of the range. \<^verbatim>\<open>datetime.strptime\<close> is a parameter: it gives the date
  a string denotes or raises. For a string, the end is the next midnight less one second,
  which does not exist after 9999-12-31; for a date, it is the last microsecond of the day.
\<close>

definition start_datetime :: "(string \<Rightarrow> error + date) \<Rightarrow> date_arg \<Rightarrow> error + timestamp" where
  "start_datetime strptime start_date =
     (case start_date of
        Date_str s \<Rightarrow> (case strptime s of Inl e \<Rightarrow> Inl e | Inr (y, m, d) \<Rightarrow> Inr (y, m, d, 0))
      | Date_obj (y, m, d) \<Rightarrow> Inr (y, m, d, 0))"

definition end_datetime :: "(string \<Rightarrow> error + date) \<Rightarrow> date_arg \<Rightarrow> error + timestamp" where
  "end_datetime strptime end_date =
     (case end_date of
        Date_str s \<Rightarrow>
          (case strptime s of
             Inl e \<Rightarrow> Inl e
           | Inr (y, m, d) \<Rightarrow>
               if (y, m, d) = (9999, 12, 31) then Inl OverflowError
               else Inr (y, m, d, day_length - 1000000))
      | Date_obj (y, m, d) \<Rightarrow> Inr (y, m, d, day_length - 1))"

text \<open>The \<^verbatim>\<open>AND col IN (...)\<close> part and the parameters that a non-empty selection adds.\<close>

definition in_clause :: "column \<Rightarrow> (nat \<Rightarrow> pname) \<Rightarrow> string list \<Rightarrow> in_part list" where
  "in_clause c name xs = (if xs = [] then [] else [(c, map name [0..<length xs])])"

definition in_params :: "(nat \<Rightarrow> pname) \<Rightarrow> string list \<Rightarrow> params" where
  "in_params name xs = map (\<lambda>(i, x). (name i, Text x)) (enumerate 0 xs)"

definition selected_query :: "string list \<Rightarrow> string list \<Rightarrow> string list \<Rightarrow> sql" where
  "selected_query selected_event_types selected_municipalities selected_hake_values =
     Selected_query (in_clause C_event_type Event_type_i selected_event_types
                     @ in_clause C_municipality Municipality_i selected_municipalities
                     @ in_clause C_hake Hake_i selected_hake_values)"

definition base_params ::
  "timestamp \<Rightarrow> timestamp \<Rightarrow> string list \<Rightarrow> string list \<Rightarrow> string list \<Rightarrow> params" where
  "base_params lo hi selected_event_types selected_municipalities selected_hake_values =
     [(Start_date, Datetime lo), (End_date, Datetime hi)]
     @ in_params Event_type_i selected_event_types
     @ in_params Municipality_i selected_municipalities
     @ in_params Hake_i selected_hake_values"

definition total_query :: "string list \<Rightarrow> string list \<Rightarrow> sql" where
  "total_query selected_municipalities selected_hake_values =
     Total_query (in_clause C_municipality Municipality_i selected_municipalities
                  @ in_clause C_hake Hake_i selected_hake_values)"

definition total_params :: "timestamp \<Rightarrow> timestamp \<Rightarrow> string list \<Rightarrow> string list \<Rightarrow> params" where
  "total_params lo hi selected_municipalities selected_hake_values =
     [(Start_date, Datetime lo), (End_date, Datetime hi)]
     @ in_params Municipality_i selected_municipalities
     @ in_params Hake_i selected_hake_values"

text \<open>
  Rows of the two frames after the column \<^verbatim>\<open>time_group\<close> was added:
  (timestamp, hake, time_group) and (timestamp, event_type, hake, time_group).
  Rows of \<^verbatim>\<open>merged_df\<close>: (time_group, event_type, selected_count, total_count, percentage),
  where a left join leaves \<^verbatim>\<open>total_count\<close> missing when the bucket has no total row.
  Rows of \<^verbatim>\<open>merged_df_by_hake\<close>: (time_group, hake, event_type, selected_count, total_count,
  percentage); in a chart they carry the column \<^verbatim>\<open>hake_label\<close> as well.
\<close>

type_synonym total_row = "timestamp \<times> string option \<times> timestamp"
type_synonym selected_row = "timestamp \<times> string \<times> string option \<times> timestamp"
type_synonym rate_row = "timestamp \<times> string \<times> nat \<times> nat option \<times> fnum"
type_synonym hake_rate_row = "timestamp \<times> string \<times> string \<times> nat \<times> nat option \<times> fnum"
type_synonym hake_chart_row = "timestamp \<times> string \<times> string \<times> nat \<times> nat option \<times> fnum \<times> string"

record 'r line_fig =
  fig_title :: string
  fig_data :: "'r list"

datatype summary = Message string | Error_processing error | Yhteenveto nat nat rat

type_synonym result =
  "rate_row line_fig option \<times> hake_chart_row line_fig list \<times> summary \<times> selected_row list"

fun percentage :: "nat \<Rightarrow> nat option \<Rightarrow> fnum" where
  "percentage selected_count None = NaN"
| "percentage selected_count (Some total_count) =
     fround2 (ftimes (fdiv selected_count total_count) 100)"

definition merged_df :: "total_row list \<Rightarrow> selected_row list \<Rightarrow> rate_row list" where
  "merged_df total_df selected_df =
     (let total_counts = group_size (map (\<lambda>(t, h, g). g) total_df);
          selected_counts = group_size (map (\<lambda>(t, e, h, g). (g, e)) selected_df)
      in map (\<lambda>((g, e), n). (g, e, n, map_of total_counts g, percentage n (map_of total_counts g)))
           selected_counts)"


definition merged_df_by_hake :: "total_row list \<Rightarrow> selected_row list \<Rightarrow> hake_rate_row list" where
  "merged_df_by_hake total_df selected_df =
     (let total_counts_by_hake =
            group_size (List.map_filter (\<lambda>(t, h, g). map_option (Pair g) h) total_df);
          selected_counts_by_hake =
            group_size (List.map_filter (\<lambda>(t, e, h, g). map_option (\<lambda>k. (g, k, e)) h) selected_df)
      in map (\<lambda>((g, h, e), n).
                (g, h, e, n, map_of total_counts_by_hake (g, h),
                 percentage n (map_of total_counts_by_hake (g, h))))
           selected_counts_by_hake)"

definition hake_label :: "string \<Rightarrow> string" where
  "hake_label h = ''H'' @ a_uml @ ''t'' @ a_uml @ ''keskus '' @ h"

definition hake_chart :: "hake_rate_row list \<Rightarrow> string \<Rightarrow> hake_chart_row line_fig" where
  "hake_chart event_data et =
     \<lparr>fig_title = ''Vasteen tyyppi: '' @ et @ '' (h'' @ a_uml @ ''t'' @ a_uml @ ''keskuksittain)'',
      fig_data = map (\<lambda>(g, h, e, n, tc, p). (g, h, e, n, tc, p, hake_label h)) event_data\<rparr>"

definition hake_fig :: "hake_rate_row list \<Rightarrow> string \<Rightarrow> hake_chart_row line_fig list" where
  "hake_fig by_hake et =
     (let event_data = filter (\<lambda>(g, h, e, n, tc, p). e = et) by_hake
      in if event_data = [] then [] else [hake_chart event_data et])"

definition hake_figs :: "bool \<Rightarrow> total_row list \<Rightarrow> selected_row list \<Rightarrow> hake_chart_row line_fig list" where
  "hake_figs show_hake_breakdown total_df selected_df =
     (if show_hake_breakdown
      then (let by_hake = merged_df_by_hake total_df selected_df;
                event_types = unique (map (\<lambda>(g, h, e, n, tc, p). e) by_hake)
            in concat (map (hake_fig by_hake) (take 5 event_types)))
      else [])"

definition summary_text :: "total_row list \<Rightarrow> selected_row list \<Rightarrow> summary" where
  "summary_text total_df selected_df =
     (let total_events = length total_df;
          selected_events = length selected_df
      in Yhteenveto total_events selected_events
           (if total_events > 0 then of_nat selected_events / of_nat total_events * 100 else 0))"

definition error_result :: "error \<Rightarrow> result" where
  "error_result e = (None, [], Error_processing e, [])"

text \<open>
  The part of \<^verbatim>\<open>process_rescue_events\<close> after the two frames were fetched. A frame without
  the column \<^verbatim>\<open>timestamp\<close> raises \<^verbatim>\<open>KeyError\<close>, and so does grouping by \<^verbatim>\<open>time_group\<close>
  when no branch added that column.
\<close>

definition no_data :: result where
  "no_data = (None, [], Message ''No data available with the current filter settings.'', [])"

definition analyse :: "string \<Rightarrow> bool \<Rightarrow> frame \<Rightarrow> frame \<Rightarrow> result" where
  "analyse time_aggregation show_hake_breakdown total_res selected_res =
     (if frame_empty total_res \<or> frame_empty selected_res then no_data
      else
        (case total_res of
           Total_rows trs \<Rightarrow>
             (case selected_res of
                Selected_rows srs \<Rightarrow>
                  (case time_group time_aggregation of
                     None \<Rightarrow> error_result (KeyError ''time_group'')
                   | Some bucket \<Rightarrow>
                       (let total_df = map (\<lambda>(t, h). (t, h, bucket t)) trs;
                            selected_df = map (\<lambda>(t, e, h). (t, e, h, bucket t)) srs
                        in (Some \<lparr>fig_title = ''Valitut vasteet prosentteina kaikista (''
                                              @ time_aggregation @ '')'',
                                  fig_data = merged_df total_df selected_df\<rparr>,
                            hake_figs show_hake_breakdown total_df selected_df,
                            summary_text total_df selected_df,
                            take 100 selected_df)))
              | _ \<Rightarrow> error_result (KeyError ''timestamp''))
         | _ \<Rightarrow> error_result (KeyError ''timestamp'')))"

text \<open>
  \<^verbatim>\<open>process_rescue_events\<close>: every exception raised inside is caught and becomes the
  \<^verbatim>\<open>Error processing data\<close> result.
\<close>

definition process_rescue_events ::
  "(string \<Rightarrow> error + date) \<Rightarrow> db \<Rightarrow> date_arg \<Rightarrow> date_arg \<Rightarrow> string list \<Rightarrow> string list
   \<Rightarrow> string list \<Rightarrow> string \<Rightarrow> bool \<Rightarrow> session \<Rightarrow> result \<times> session" where
  "process_rescue_events strptime d start_date end_date selected_event_types
       selected_municipalities selected_hake_values time_aggregation show_hake_breakdown st =
     (if selected_event_types = []
      then ((None, [], Message ''Please select at least one event type.'', []), st)
      else
        (case start_datetime strptime start_date of
           Inl e \<Rightarrow> (error_result e, st)
         | Inr lo \<Rightarrow>
             (case end_datetime strptime end_date of
                Inl e \<Rightarrow> (error_result e, st)
              | Inr hi \<Rightarrow>
                  (case cached_execute_query d
                          (total_query selected_municipalities selected_hake_values)
                          (Some (total_params lo hi selected_municipalities selected_hake_values))
                          st of
                     (Inl e, st1) \<Rightarrow> (error_result e, st1)
                   | (Inr total_res, st1) \<Rightarrow>
                       (case cached_execute_query d
                               (selected_query selected_event_types selected_municipalities
                                  selected_hake_values)
                               (Some (base_params lo hi selected_event_types
                                        selected_municipalities selected_hake_values))
                               st1 of
                          (Inl e, st2) \<Rightarrow> (error_result e, st2)
                        | (Inr selected_res, st2) \<Rightarrow>
                            (analyse time_aggregation show_hake_breakdown total_res selected_res,
                             st2))))))"

section \<open>The population normalizer: \<^verbatim>\<open>vakiluvut.py\<close>\<close>

record merged_row = incident_row +
  vakiluku :: nat

record rated_row = merged_row +
  normalized_rate :: fnum

record top_row = rated_row +
  rank :: nat
  selected_event_type :: string

text \<open>
  \<^verbatim>\<open>incidents_df.merge(population_df, on='municipality', how='inner')\<close>: each incident row
  with each population row of the same municipality, in the order of the incident rows.
\<close>

definition merge_inner :: "incident_row list \<Rightarrow> (string \<times> nat) list \<Rightarrow> merged_row list" where
  "merge_inner incidents_df population_df =
     concat (map (\<lambda>l. map (\<lambda>p. \<lparr>municipality = municipality l, event_type = event_type l,
                                  incident_count = incident_count l, vakiluku = snd p\<rparr>)
                          (filter (\<lambda>p. fst p = municipality l) population_df))
               incidents_df)"

text \<open>
  \<^verbatim>\<open>load_municipality_data\<close> has no handler of its own: what \<^verbatim>\<open>execute_query\<close> raises leaves
  the function.
\<close>

definition load_municipality_data ::
  "db \<Rightarrow> issued \<Rightarrow> (error + merged_row list \<times> string list) \<times> issued" where
  "load_municipality_data d sent =
     (case execute_query d Population_query None sent of
        (Inl e, sent1) \<Rightarrow> (Inl e, sent1)
      | (Inr population_df, sent1) \<Rightarrow>
          (case execute_query d Incidents_query None sent1 of
             (Inl e, sent2) \<Rightarrow> (Inl e, sent2)
           | (Inr incidents_df, sent2) \<Rightarrow>
               (case population_df of
                  Population_rows ps \<Rightarrow>
                    (case incidents_df of
                       Incident_rows ins \<Rightarrow>
                         (let merged = merge_inner ins ps
                          in (Inr (merged, sort (remdups (map event_type merged))), sent2))
                     | _ \<Rightarrow> (Inl (KeyError ''municipality''), sent2))
                | _ \<Rightarrow> (Inl (KeyError ''municipality''), sent2))))"

definition calculate_municipality_rates :: "merged_row list \<Rightarrow> string list \<Rightarrow> rated_row list" where
  "calculate_municipality_rates df selected_event_types =
     map (\<lambda>r. \<lparr>municipality = municipality r, event_type = event_type r,
                incident_count = incident_count r, vakiluku = vakiluku r,
                normalized_rate = fround2 (ftimes (fdiv (incident_count r) (vakiluku r)) 1000)\<rparr>)
       (filter (\<lambda>r. event_type r \<in> set selected_event_types) df)"

text \<open>
  \<^verbatim>\<open>nlargest(n, column)\<close> with the default \<^verbatim>\<open>keep='first'\<close>: the first \<open>n\<close> rows of the frame in
  descending order of the column, rows with equal values in their original order. The
  library sorts descending by reversing, sorting ascending and stable, and reversing again.
\<close>

definition nlargest :: "nat \<Rightarrow> ('r \<Rightarrow> 'k::linorder) \<Rightarrow> 'r list \<Rightarrow> 'r list" where
  "nlargest n column df = take n (rev (sort_key column (rev df)))"

definition top_10 :: "rated_row list \<Rightarrow> string \<Rightarrow> top_row list" where
  "top_10 normalized_df et =
     (let event_data = filter (\<lambda>r. event_type r = et) normalized_df;
          top = nlargest 10 normalized_rate event_data
      in map (\<lambda>(r, k). \<lparr>municipality = municipality r, event_type = event_type r,
                          incident_count = incident_count r, vakiluku = vakiluku r,
                          normalized_rate = normalized_rate r,
                          rank = k, selected_event_type = et\<rparr>)
           (zip top [1..<length top + 1]))"

definition get_top_municipalities_analysis :: "merged_row list \<Rightarrow> string list \<Rightarrow> top_row list" where
  "get_top_municipalities_analysis df selected_event_types =
     (let normalized_df = calculate_municipality_rates df selected_event_types
      in concat (map (top_10 normalized_df) selected_event_types))"

text \<open>
  The table, the chart and the summary of the analysis. The table keeps the six displayed
  columns of each row (the renaming of the columns and the digit grouping of the
  population are presentation); a chart is its title and its rows.
\<close>

datatype results_table =
    Viesti string
  | Display "(nat \<times> string \<times> string \<times> nat \<times> nat \<times> fnum) list"

datatype chart = Annotation string | Bar_chart string "top_row list"

datatype municipality_summary = Summary_message string | Summary "string list" nat nat

definition ei_dataa :: string where
  "ei_dataa = ''Ei dataa saatavilla valituilla kriteereill'' @ a_uml"

definition format_municipality_table :: "top_row list \<Rightarrow> results_table" where
  "format_municipality_table df =
     (if df = [] then Viesti ei_dataa
      else Display (map (\<lambda>r. (rank r, municipality r, event_type r, incident_count r,
                                vakiluku r, normalized_rate r)) df))"

definition create_municipality_visualization :: "top_row list \<Rightarrow> chart" where
  "create_municipality_visualization df =
     (if df = [] then Annotation (''Ei dataa n'' @ a_uml @ ''ytett'' @ a_uml @ ''v'' @ a_uml @ ''ksi'')
      else
        (case unique (map event_type df) of
           [et] \<Rightarrow> Bar_chart (''Top 10 kuntaa: '' @ et) (take 10 (filter (\<lambda>r. event_type r = et) df))
         | _ \<Rightarrow> Bar_chart (''Top 10 kuntaa tapahtumatyypeitt'' @ a_uml @ ''in'') df))"

definition analyze_municipality_incidents ::
  "string list \<Rightarrow> merged_row list \<Rightarrow> results_table \<times> chart \<times> municipality_summary" where
  "analyze_municipality_incidents selected_event_types municipality_data_df =
     (if selected_event_types = []
      then (Viesti (''Valitse v'' @ a_uml @ ''hint'' @ a_uml @ a_uml @ ''n yksi tapahtumatyyppi''),
            Annotation (''Valitse tapahtumatyyppej'' @ a_uml),
            Summary_message (''Valitse tapahtumatyyppej'' @ a_uml @ '' analysoitavaksi.''))
      else
        (let top_municipalities =
               get_top_municipalities_analysis municipality_data_df selected_event_types;
             results_table = format_municipality_table top_municipalities;
             chart = create_municipality_visualization top_municipalities;
             summary =
               (if top_municipalities \<noteq> []
                then Summary selected_event_types
                       (sum_list (map incident_count top_municipalities))
                       (length (unique (map municipality top_municipalities)))
                else Summary_message (ei_dataa @ ''.''))
         in (results_table, chart, summary)))"









text \<open>
  Small stores for concrete runs: a store with one event, the same store after three more
  events arrived, the session that a first analysis of the smaller store leaves behind,
  and a store whose only event has a station.
\<close>

definition store_before :: store where
  "store_before =
     \<lparr>tilanteet = [\<lparr>t_timestamp = (2023, 1, 5, 0), t_event_type = ''rakennuspalo'',
                     t_municipality = ''Kouvola'', t_hake = None\<rparr>],
      vakiluvut = []\<rparr>"


definition session_before :: session where
  "session_before =
     snd (process_rescue_events (\<lambda>s. Inl ValueError) (Some store_before)
            (Date_obj (2023, 1, 1)) (Date_obj (2023, 12, 31)) [''rakennuspalo''] [] []
            ''Vuosi'' False \<lparr>cache = [], issued = []\<rparr>)"


text \<open>The population frame that \<^verbatim>\<open>load_municipality_data\<close> receives from a store.\<close>

definition population_2024 :: "store \<Rightarrow> (string \<times> nat) list" where
  "population_2024 s =
     map (\<lambda>r. (v_alue r, v_vakiluku r)) (filter (\<lambda>r. v_vuosi r = 2024) (vakiluvut s))"

text \<open>A row of the ranking without the two columns that the ranking added.\<close>

definition unranked :: "top_row \<Rightarrow> rated_row" where
  "unranked r = \<lparr>municipality = municipality r, event_type = event_type r,
                  incident_count = incident_count r, vakiluku = vakiluku r,
                  normalized_rate = normalized_rate r\<rparr>"

section \<open>The query layer fails to recover\<close>

lemma except_raises: "except_SQLAlchemyError = Inl (NameError ''st'')"
  by (simp add: except_SQLAlchemyError_def global_name_def db_globals_def)

text \<open>
  C4. The claim: on a connection or query failure \<^verbatim>\<open>execute_query\<close> returns an empty table
  and raises nothing. The code: the handler names \<^verbatim>\<open>st\<close>, which \<^verbatim>\<open>db.py\<close> never binds, so
  when the store cannot be reached, and when the statement fails, \<^verbatim>\<open>execute_query\<close> raises
  \<^verbatim>\<open>NameError\<close> to its caller and returns no table.
\<close>

theorem execute_query_failure_raises:
  "execute_query None query ps sent = (Inl (NameError ''st''), sent)
   \<and> fst (execute_query (Some s) (Total_query []) None sent) = Inl (NameError ''st'')"
  by (simp add: execute_query_def except_raises where_rows_def bind_datetime_def)

section \<open>The cache\<close>

lemma cached_hit:
  "map_of (cache st) (q, p) = Some df \<Longrightarrow>
   fst (cached_execute_query d q p st) = Inr df \<and> issued (snd (cached_execute_query d q p st)) = issued st"
  by (simp add: cached_execute_query_def)

lemma cached_stores:
  "fst (cached_execute_query d q p st) = Inr df \<Longrightarrow>
   map_of (cache (snd (cached_execute_query d q p st))) (q, p) = Some df"
  by (auto simp: cached_execute_query_def maxsize_def Let_def split: option.splits prod.splits sum.splits)

lemma length_filter_Cons_le:
  "map_of c k = Some v \<Longrightarrow> Suc (length (filter (\<lambda>e. fst e \<noteq> k) c)) \<le> length c"
proof (induction c)
  case Nil
  then show ?case by simp
next
  case (Cons a c)
  show ?case
  proof (cases "fst a = k")
    case True
    then show ?thesis using length_filter_le [of "\<lambda>e. fst e \<noteq> k" c] by simp
  next
    case False
    then have "map_of c k = Some v" using Cons.prems by (cases a) auto
    then show ?thesis using Cons.IH False by simp
  qed
qed

lemma cached_bounded:
  "length (cache st) \<le> maxsize \<Longrightarrow> length (cache (snd (cached_execute_query d q p st))) \<le> maxsize"
  by (auto simp: cached_execute_query_def Let_def split: option.splits prod.splits sum.splits
      dest: length_filter_Cons_le)

lemma cached_miss:
  "map_of (cache st) (q, p) = None \<Longrightarrow>
   fst (cached_execute_query d q p st) =
   fst (execute_query d q (case p of None \<Rightarrow> None | Some ps \<Rightarrow> if ps = [] then None else Some ps) (issued st))"
  by (auto simp: cached_execute_query_def Let_def split: option.splits prod.splits sum.splits)

lemma cached_keeps_other:
  assumes "k \<noteq> (q, p)" and "map_of (cache st) k = None"
  shows "map_of (cache (snd (cached_execute_query d q p st))) k = None"
proof -
  have notin: "k \<notin> fst ` set (cache st)"
    using assms(2) by (simp add: map_of_eq_None_iff)
  have a: "k \<notin> fst ` set (filter (\<lambda>e. fst e \<noteq> (q, p)) (cache st))"
    using notin by auto
  have b: "k \<notin> fst ` set (take maxsize (((q, p), df) # cache st))" for df
    using notin assms(1) by (auto dest!: in_set_takeD)
  show ?thesis
    using a b assms(1)
    by (auto simp: cached_execute_query_def Let_def map_of_eq_None_iff
        split: option.splits prod.splits sum.splits)
qed

text \<open>
  C8, as amended. A call of \<^verbatim>\<open>cached_execute_query\<close> that returned a frame is memoized under
  the statement and the parameter tuple as given: the next call with the same statement and
  the same tuple returns that frame, whatever the store holds by then, and sends nothing to
  the store. The cache never grows beyond its bound of 128 entries. A call stores nothing
  under another parameter tuple: a tuple that was not cached before is not cached after.
\<close>

theorem cached_execute_query_memoizes:
  "(fst (cached_execute_query d q p st) = Inr df \<longrightarrow>
      fst (cached_execute_query d' q p (snd (cached_execute_query d q p st))) = Inr df
      \<and> issued (snd (cached_execute_query d' q p (snd (cached_execute_query d q p st))))
          = issued (snd (cached_execute_query d q p st)))
   \<and> (length (cache st) \<le> maxsize \<longrightarrow>
        length (cache (snd (cached_execute_query d q p st))) \<le> maxsize)
   \<and> maxsize = 128
   \<and> (p' \<noteq> p \<and> map_of (cache st) (q, p') = None \<longrightarrow>
        map_of (cache (snd (cached_execute_query d q p st))) (q, p') = None)"
  using cached_hit [OF cached_stores, of d q p st df d'] cached_bounded [of st d q p]
    cached_keeps_other [of "(q, p')" q p st d]
  by (simp add: maxsize_def)

theorem cached_execute_query_memoizes_witness:
  "fst (cached_execute_query (Some \<lparr>tilanteet = [], vakiluvut = []\<rparr>) Population_query None
          \<lparr>cache = [], issued = []\<rparr>) = Inr (Population_rows [])
   \<and> length (cache \<lparr>cache = [], issued = []\<rparr>) \<le> maxsize
   \<and> Some [] \<noteq> (None :: params option)
   \<and> map_of (cache \<lparr>cache = [], issued = []\<rparr>) (Population_query, Some []) = None
   \<and> fst (cached_execute_query None Population_query None
             (snd (cached_execute_query (Some \<lparr>tilanteet = [], vakiluvut = []\<rparr>)
                     Population_query None \<lparr>cache = [], issued = []\<rparr>)))
       = Inr (Population_rows [])
   \<and> map_of (cache (snd (cached_execute_query (Some \<lparr>tilanteet = [], vakiluvut = []\<rparr>)
                             Population_query None \<lparr>cache = [], issued = []\<rparr>)))
        (Population_query, Some []) = None"
proof -
  have h1: "fst (cached_execute_query (Some \<lparr>tilanteet = [], vakiluvut = []\<rparr>) Population_query
                   None \<lparr>cache = [], issued = []\<rparr>) = Inr (Population_rows [])"
    by (simp add: cached_execute_query_def execute_query_def)
  have h2: "length (cache \<lparr>cache = [], issued = []\<rparr>) \<le> maxsize"
    by simp
  have h3: "map_of (cache \<lparr>cache = [], issued = []\<rparr>) (Population_query, Some []) = None"
    by simp
  show ?thesis
    using h1 h2 h3
      cached_execute_query_memoizes [of "Some \<lparr>tilanteet = [], vakiluvut = []\<rparr>" Population_query
        None "\<lparr>cache = [], issued = []\<rparr>" "Population_rows []" None "Some []"]
    by simp
qed

text \<open>
  C8, as stated, fails: two parameter tuples that list the same pairs in a different order
  are the same mapping but different keys. After a call with the one, a call with the other
  is answered by the store, here by a store that has lost its only row in the meantime.
\<close>

theorem cached_execute_query_order_counterexample:
  "dict [(Start_date, Datetime (2023, 1, 1, 0)), (End_date, Datetime (2023, 1, 31, 0))]
     = dict [(End_date, Datetime (2023, 1, 31, 0)), (Start_date, Datetime (2023, 1, 1, 0))]
   \<and> fst (cached_execute_query
            (Some \<lparr>tilanteet = [\<lparr>t_timestamp = (2023, 1, 5, 0), t_event_type = ''rakennuspalo'',
                                  t_municipality = ''Kouvola'', t_hake = None\<rparr>],
                   vakiluvut = []\<rparr>)
            (Total_query [])
            (Some [(Start_date, Datetime (2023, 1, 1, 0)), (End_date, Datetime (2023, 1, 31, 0))])
            \<lparr>cache = [], issued = []\<rparr>)
       = Inr (Total_rows [((2023, 1, 5, 0), None)])
   \<and> fst (cached_execute_query (Some \<lparr>tilanteet = [], vakiluvut = []\<rparr>) (Total_query [])
            (Some [(End_date, Datetime (2023, 1, 31, 0)), (Start_date, Datetime (2023, 1, 1, 0))])
            (snd (cached_execute_query
                    (Some \<lparr>tilanteet = [\<lparr>t_timestamp = (2023, 1, 5, 0),
                                          t_event_type = ''rakennuspalo'',
                                          t_municipality = ''Kouvola'', t_hake = None\<rparr>],
                           vakiluvut = []\<rparr>)
                    (Total_query [])
                    (Some [(Start_date, Datetime (2023, 1, 1, 0)),
                           (End_date, Datetime (2023, 1, 31, 0))])
                    \<lparr>cache = [], issued = []\<rparr>)))
       = Inr (Total_rows [])"
  by (auto simp: cached_execute_query_def execute_query_def dict_def where_rows_def
      bind_datetime_def fun_eq_iff Let_def maxsize_def)

section \<open>The ranking of the population normalizer\<close>









lemma unranked_rate [simp]: "normalized_rate (unranked r) = normalized_rate r"
  by (simp add: unranked_def)

lemma unranked_event_type [simp]: "event_type (unranked r) = event_type r"
  by (simp add: unranked_def)

lemma unranked_municipality [simp]: "municipality (unranked r) = municipality r"
  by (simp add: unranked_def)










text \<open>Two municipalities with the same rate keep the order of the merged frame.\<close>

lemma top_municipalities_tie:
  "get_top_municipalities_analysis
     [\<lparr>municipality = ''Kotka'', event_type = ''rakennuspalo'', incident_count = 150,
        vakiluku = 50000\<rparr>,
      \<lparr>municipality = ''Kouvola'', event_type = ''rakennuspalo'', incident_count = 240,
        vakiluku = 80000\<rparr>]
     [''rakennuspalo'']
   = [\<lparr>municipality = ''Kotka'', event_type = ''rakennuspalo'', incident_count = 150,
        vakiluku = 50000, normalized_rate = Finite 3, rank = 1,
        selected_event_type = ''rakennuspalo''\<rparr>,
      \<lparr>municipality = ''Kouvola'', event_type = ''rakennuspalo'', incident_count = 240,
        vakiluku = 80000, normalized_rate = Finite 3, rank = 2,
        selected_event_type = ''rakennuspalo''\<rparr>]"
  by (simp add: get_top_municipalities_analysis_def top_10_def nlargest_def
      calculate_municipality_rates_def fdiv_def round_half_even_def less_eq_fnum_def upt_rec)

section \<open>An empty selection\<close>

text \<open>
  C3. With no event type selected, \<^verbatim>\<open>process_rescue_events\<close> returns the result that asks
  for a selection and leaves the session as it was: nothing was looked up in the cache and
  nothing was sent to the store. \<^verbatim>\<open>analyze_municipality_incidents\<close>, which works on the frame
  it is given and has no access to the store, returns its own request for a selection. Both
  differ from the results that report missing data.
\<close>

theorem empty_selection_required:
  "process_rescue_events strptime d start_date end_date [] selected_municipalities
       selected_hake_values time_aggregation show_hake_breakdown st
     = ((None, [], Message ''Please select at least one event type.'', []), st)
   \<and> (None, [], Message ''Please select at least one event type.'', []) \<noteq> no_data
   \<and> analyze_municipality_incidents [] municipality_data_df
     = (Viesti (''Valitse v'' @ a_uml @ ''hint'' @ a_uml @ a_uml @ ''n yksi tapahtumatyyppi''),
        Annotation (''Valitse tapahtumatyyppej'' @ a_uml),
        Summary_message (''Valitse tapahtumatyyppej'' @ a_uml @ '' analysoitavaksi.''))
   \<and> Summary_message (''Valitse tapahtumatyyppej'' @ a_uml @ '' analysoitavaksi.'')
       \<noteq> Summary_message (ei_dataa @ ''.'')"
  by (simp add: process_rescue_events_def analyze_municipality_incidents_def no_data_def
      ei_dataa_def a_uml_def)

section \<open>The merged table of events and population\<close>

lemma load_connected:
  "load_municipality_data (Some s) sent =
     (Inr (merge_inner (incident_groups s) (population_2024 s),
           sort (remdups (map event_type (merge_inner (incident_groups s) (population_2024 s))))),
      sent @ [(Population_query, None), (Incidents_query, None)])"
  by (simp add: load_municipality_data_def execute_query_def population_2024_def Let_def)

lemma load_unreachable:
  "load_municipality_data None sent = (Inl (NameError ''st''), sent)"
  by (simp add: load_municipality_data_def execute_query_def except_raises)

lemma incident_groups_row:
  assumes "l \<in> set (incident_groups s)"
  shows "incident_count l = event_count s (municipality l, event_type l) \<and> 100 < incident_count l"
  using assms by (auto simp: incident_groups_def)

lemma event_count_le:
  "event_count s (m, e) \<le> count_list (map t_event_type (tilanteet s)) e"
proof -
  have "count_list (map (\<lambda>r. (t_municipality r, t_event_type r)) (tilanteet s)) (m, e)
          \<le> count_list (map snd (map (\<lambda>r. (t_municipality r, t_event_type r)) (tilanteet s)))
               (snd (m, e))"
    by (rule count_list_map_ge)
  then show ?thesis by (simp add: event_count_def comp_def)
qed

lemma merge_inner_row:
  assumes "r \<in> set (merge_inner ins ps)"
  shows "\<exists>l \<in> set ins. municipality r = municipality l \<and> event_type r = event_type l
            \<and> incident_count r = incident_count l \<and> (municipality l, vakiluku r) \<in> set ps"
  using assms by (auto simp: merge_inner_def)

lemma population_2024_row:
  assumes "(m, v) \<in> set (population_2024 s)"
  shows "\<exists>p \<in> set (vakiluvut s). v_alue p = m \<and> v_vuosi p = 2024 \<and> v_vakiluku p = v"
  using assms by (auto simp: population_2024_def)

text \<open>
  C9. Every row of the merged table that \<^verbatim>\<open>load_municipality_data\<close> returns comes from a
  store that answered; its \<^verbatim>\<open>incident_count\<close> is the number of events of its event type in
  its municipality and exceeds 100, so its event type was observed more than 100 times in
  the whole table of events; and its population is that of a population row of the same
  region for the year 2024.
\<close>

theorem merged_table_rows:
  assumes "load_municipality_data d sent = (Inr (merged, event_types), sent')"
    and "r \<in> set merged"
  shows "\<exists>s. d = Some s
           \<and> incident_count r = event_count s (municipality r, event_type r)
           \<and> 100 < incident_count r
           \<and> 100 < count_list (map t_event_type (tilanteet s)) (event_type r)
           \<and> (\<exists>p \<in> set (vakiluvut s).
                 v_alue p = municipality r \<and> v_vuosi p = 2024 \<and> v_vakiluku p = vakiluku r)"
proof (cases d)
  case None
  then show ?thesis using assms(1) by (simp add: load_unreachable)
next
  case (Some s)
  then have "merged = merge_inner (incident_groups s) (population_2024 s)"
    using assms(1) by (simp add: load_connected)
  then obtain l where l: "l \<in> set (incident_groups s)" "municipality r = municipality l"
      "event_type r = event_type l" "incident_count r = incident_count l"
      "(municipality l, vakiluku r) \<in> set (population_2024 s)"
    using merge_inner_row assms(2) by blast
  have c: "incident_count r = event_count s (municipality r, event_type r)" "100 < incident_count r"
    using incident_groups_row [OF l(1)] l(2,3,4) by simp_all
  have "100 < count_list (map t_event_type (tilanteet s)) (event_type r)"
    using c event_count_le [of s "municipality r" "event_type r"] by simp
  moreover have "\<exists>p \<in> set (vakiluvut s).
      v_alue p = municipality r \<and> v_vuosi p = 2024 \<and> v_vakiluku p = vakiluku r"
    using population_2024_row [OF l(5)] l(2) by simp
  ultimately show ?thesis using Some c by simp
qed



lemma count_list_replicate_same: "count_list (replicate n x) x = n"
  by (induction n) simp_all

lemma remdups_replicate_same: "remdups (replicate (Suc n) x) = [x]"
  by (induction n) simp_all

lemma incident_groups_replicate:
  "incident_groups \<lparr>tilanteet = replicate 101 ev, vakiluvut = vs\<rparr>
     = [\<lparr>municipality = t_municipality ev, event_type = t_event_type ev, incident_count = 101\<rparr>]"
proof -
  have "(101::nat) = Suc 100" by simp
  then have "remdups (replicate 101 (t_municipality ev, t_event_type ev))
               = [(t_municipality ev, t_event_type ev)]"
    using remdups_replicate_same [of 100] by simp
  then show ?thesis
    by (simp add: incident_groups_def event_count_def count_list_replicate_same)
qed

theorem merged_table_rows_witness:
  "load_municipality_data
     (Some \<lparr>tilanteet = replicate 101 \<lparr>t_timestamp = (2023, 1, 5, 0), t_event_type = ''rakennuspalo'',
                                        t_municipality = ''Kouvola'', t_hake = None\<rparr>,
            vakiluvut = [\<lparr>v_alue = ''Kouvola'', v_vuosi = 2024, v_vakiluku = 80000\<rparr>]\<rparr>) []
     = (Inr ([\<lparr>municipality = ''Kouvola'', event_type = ''rakennuspalo'', incident_count = 101,
               vakiluku = 80000\<rparr>], [''rakennuspalo'']),
        [(Population_query, None), (Incidents_query, None)])
   \<and> \<lparr>municipality = ''Kouvola'', event_type = ''rakennuspalo'', incident_count = 101,
        vakiluku = 80000\<rparr>
       \<in> set [\<lparr>municipality = ''Kouvola'', event_type = ''rakennuspalo'', incident_count = 101,
                 vakiluku = 80000\<rparr>]
   \<and> (\<exists>s. Some \<lparr>tilanteet = replicate 101 \<lparr>t_timestamp = (2023, 1, 5, 0),
                                               t_event_type = ''rakennuspalo'',
                                               t_municipality = ''Kouvola'', t_hake = None\<rparr>,
                   vakiluvut = [\<lparr>v_alue = ''Kouvola'', v_vuosi = 2024, v_vakiluku = 80000\<rparr>]\<rparr>
            = Some s
          \<and> 100 < count_list (map t_event_type (tilanteet s)) ''rakennuspalo''
          \<and> (\<exists>p \<in> set (vakiluvut s).
                v_alue p = ''Kouvola'' \<and> v_vuosi p = 2024 \<and> v_vakiluku p = 80000))"
proof -
  have h1: "load_municipality_data
     (Some \<lparr>tilanteet = replicate 101 \<lparr>t_timestamp = (2023, 1, 5, 0), t_event_type = ''rakennuspalo'',
                                        t_municipality = ''Kouvola'', t_hake = None\<rparr>,
            vakiluvut = [\<lparr>v_alue = ''Kouvola'', v_vuosi = 2024, v_vakiluku = 80000\<rparr>]\<rparr>) []
     = (Inr ([\<lparr>municipality = ''Kouvola'', event_type = ''rakennuspalo'', incident_count = 101,
               vakiluku = 80000\<rparr>], [''rakennuspalo'']),
        [(Population_query, None), (Incidents_query, None)])"
    by (simp add: load_connected incident_groups_replicate population_2024_def merge_inner_def)
  have h2: "\<lparr>municipality = ''Kouvola'', event_type = ''rakennuspalo'', incident_count = 101,
        vakiluku = 80000\<rparr>
       \<in> set [\<lparr>municipality = ''Kouvola'', event_type = ''rakennuspalo'', incident_count = 101,
                 vakiluku = 80000\<rparr>]"
    by simp
  show ?thesis
    using h1 h2 merged_table_rows [OF h1 h2] by simp
qed




section \<open>The calendar and the time buckets\<close>

lemma days_before_month_Suc:
  "1 \<le> m \<Longrightarrow> days_before_month y (Suc m) = days_before_month y m + days_in_month y m"
  by (simp add: days_before_month_def)

lemma days_before_month_table:
  "days_before_month y 1 = 0"
  "days_before_month y 2 = 31"
  "days_before_month y 3 = (if is_leap y then 60 else 59)"
  "days_before_month y 4 = (if is_leap y then 91 else 90)"
  "days_before_month y 5 = (if is_leap y then 121 else 120)"
  "days_before_month y 6 = (if is_leap y then 152 else 151)"
  "days_before_month y 7 = (if is_leap y then 182 else 181)"
  "days_before_month y 8 = (if is_leap y then 213 else 212)"
  "days_before_month y 9 = (if is_leap y then 244 else 243)"
  "days_before_month y 10 = (if is_leap y then 274 else 273)"
  "days_before_month y 11 = (if is_leap y then 305 else 304)"
  "days_before_month y 12 = (if is_leap y then 335 else 334)"
  "days_before_month y 13 = year_length y"
  by (simp_all add: days_before_month_def days_in_month_def year_length_def upt_conv_Cons)


lemma leap_mod_facts:
  "Suc k mod 100 = 0 \<Longrightarrow> Suc k mod 4 = 0"
  "Suc k mod 400 = 0 \<Longrightarrow> Suc k mod 100 = 0"
proof -
  show "Suc k mod 100 = 0 \<Longrightarrow> Suc k mod 4 = 0"
    using mod_mod_cancel [of 4 100 "Suc k"] by simp
  show "Suc k mod 400 = 0 \<Longrightarrow> Suc k mod 100 = 0"
    using mod_mod_cancel [of 100 400 "Suc k"] by simp
qed

lemma days_before_year_step:
  "days_before_year (Suc (Suc k)) = days_before_year (Suc k) + year_length (Suc k)"
proof -
  have le: "k div 100 \<le> k div 4"
    by (rule div_le_mono2) simp_all
  show ?thesis
    using le leap_mod_facts [of k]
    by (auto simp: days_before_year_def year_length_def is_leap_def div_Suc add_ac)
qed

lemma days_before_year_Suc:
  "1 \<le> y \<Longrightarrow> days_before_year (Suc y) = days_before_year y + year_length y"
  using days_before_year_step [of "y - 1"] by simp


lemma days_before_month_mono: "m \<le> m' \<Longrightarrow> days_before_month y m \<le> days_before_month y m'"
proof (induction rule: dec_induct)
  case base
  show ?case by simp
next
  case (step n)
  have "days_before_month y n \<le> days_before_month y (Suc n)"
    by (cases "n = 0") (simp_all add: days_before_month_def)
  with step.IH show ?case by simp
qed

lemma days_in_month_pos: "28 \<le> days_in_month y m"
  by (simp add: days_in_month_def)

lemma day_of_year_le:
  assumes "valid_date (y, m, d)"
  shows "days_before_month y m + d \<le> year_length y"
proof -
  have m: "1 \<le> m" "m \<le> 12" and d: "d \<le> days_in_month y m"
    using assms by (simp_all add: valid_date_def)
  have "days_before_month y m + d \<le> days_before_month y (Suc m)"
    using d m(1) by (simp add: days_before_month_Suc)
  also have "\<dots> \<le> days_before_month y 13"
    using m(2) by (intro days_before_month_mono) simp
  finally show ?thesis by (simp add: days_before_month_table)
qed

lemma days_before_year_mono:
  assumes "1 \<le> y" and "y \<le> y'"
  shows "days_before_year y \<le> days_before_year y'"
  using assms(2)
proof (induction rule: dec_induct)
  case base
  show ?case by simp
next
  case (step n)
  then have "1 \<le> n" using assms(1) by simp
  then show ?case using step by (simp add: days_before_year_Suc)
qed

lemma toordinal_strict_mono:
  assumes "valid_date d1" and "valid_date d2" and "d1 < d2"
  shows "toordinal d1 < toordinal d2"
proof -
  obtain y1 m1 a1 where d1: "d1 = (y1, m1, a1)" by (cases d1) auto
  obtain y2 m2 a2 where d2: "d2 = (y2, m2, a2)" by (cases d2) auto
  have v1: "1 \<le> y1" "1 \<le> m1" "1 \<le> a1" "a1 \<le> days_in_month y1 m1"
    using assms(1) by (simp_all add: d1 valid_date_def)
  have v2: "1 \<le> a2"
    using assms(2) by (simp add: d2 valid_date_def)
  consider "y1 < y2" | "y1 = y2" "m1 < m2" | "y1 = y2" "m1 = m2" "a1 < a2"
    using assms(3) by (auto simp: d1 d2 order_le_less)
  then show ?thesis
  proof cases
    case 1
    have "days_before_year y1 + (days_before_month y1 m1 + a1) \<le> days_before_year y1 + year_length y1"
      using day_of_year_le [of y1 m1 a1] assms(1) by (simp add: d1)
    also have "\<dots> = days_before_year (Suc y1)"
      using v1(1) by (simp add: days_before_year_Suc)
    also have "\<dots> \<le> days_before_year y2"
      using 1 by (intro days_before_year_mono) simp_all
    finally show ?thesis using v2 by (simp add: toordinal_def d1 d2)
  next
    case 2
    have "days_before_month y1 m1 + a1 \<le> days_before_month y1 (Suc m1)"
      using v1 by (simp add: days_before_month_Suc)
    also have "\<dots> \<le> days_before_month y1 m2"
      using 2 by (intro days_before_month_mono) simp
    finally show ?thesis using v2 2 by (simp add: toordinal_def d1 d2)
  next
    case 3
    then show ?thesis by (simp add: toordinal_def d1 d2)
  qed
qed

lemma toordinal_mono:
  assumes "valid_date d1" and "valid_date d2" and "d1 \<le> d2"
  shows "toordinal d1 \<le> toordinal d2"
proof (cases "d1 = d2")
  case True
  then show ?thesis by simp
next
  case False
  then have "d1 < d2" using assms(3) by (rule le_neq_trans [OF _ _, rotated])
  then show ?thesis using toordinal_strict_mono [OF assms(1,2)] by simp
qed

lemma toordinal_reflects:
  assumes "valid_date d1" and "valid_date d2" and "toordinal d1 \<le> toordinal d2"
  shows "d1 \<le> d2"
proof (rule ccontr)
  assume "\<not> d1 \<le> d2"
  then have "d2 < d1" by simp
  then have "toordinal d2 < toordinal d1"
    using toordinal_strict_mono [OF assms(2,1)] by simp
  then show False using assms(3) by simp
qed

lemma toordinal_first: "toordinal (1, 1, 1) = 1"
  by (simp add: toordinal_def days_before_year_def days_before_month_def)


lemma prev_day_cases:
  assumes "valid_date (y, m, d)" and "(y, m, d) \<noteq> (1, 1, 1)"
  obtains "1 < d" | "d = 1" "1 < m" | "d = 1" "m = 1" "1 < y"
proof -
  have v: "1 \<le> y" "1 \<le> m" "1 \<le> d"
    using assms(1) by (simp_all add: valid_date_def)
  show ?thesis
  proof (cases "1 < d")
    case True
    then show ?thesis by (rule that(1))
  next
    case False
    then have d: "d = 1" using v(3) by simp
    show ?thesis
    proof (cases "1 < m")
      case True
      with d show ?thesis by (rule that(2))
    next
      case False
      then have m: "m = 1" using v(2) by simp
      then have "1 < y" using assms(2) d v(1) by (cases "y = 1") simp_all
      with d m show ?thesis by (rule that(3))
    qed
  qed
qed

lemma prev_day_valid:
  assumes "valid_date (y, m, d)" and "(y, m, d) \<noteq> (1, 1, 1)"
  shows "valid_date (prev_day (y, m, d))"
  using assms
proof (cases rule: prev_day_cases)
  case 1
  then show ?thesis using assms(1) by (auto simp: valid_date_def)
next
  case 2
  have "1 \<le> days_in_month y (m - 1)"
    using days_in_month_pos [of y "m - 1"] by simp
  then show ?thesis using 2 assms(1) by (auto simp: valid_date_def)
next
  case 3
  have "days_in_month (y - 1) 12 = 31" by (simp add: days_in_month_def)
  then show ?thesis using 3 assms(1) by (auto simp: valid_date_def)
qed

lemma prev_day_toordinal:
  assumes "valid_date (y, m, d)" and "(y, m, d) \<noteq> (1, 1, 1)"
  shows "toordinal (prev_day (y, m, d)) + 1 = toordinal (y, m, d)"
proof -
  show ?thesis
    using assms
  proof (cases rule: prev_day_cases)
    case 1
    then show ?thesis by (simp add: toordinal_def)
  next
    case 2
    then have "days_before_month y (Suc (m - 1)) = days_before_month y (m - 1) + days_in_month y (m - 1)"
      by (intro days_before_month_Suc) simp
    then show ?thesis using 2 by (simp add: toordinal_def)
  next
    case 3
    have "days_before_year (Suc (y - 1)) = days_before_year (y - 1) + year_length (y - 1)"
      using 3 by (intro days_before_year_Suc) simp
    moreover have "days_before_month (y - 1) 12 + 31 = year_length (y - 1)"
      by (simp add: days_before_month_table year_length_def)
    moreover have "days_before_month y 1 = 0"
      by (simp add: days_before_month_def)
    ultimately show ?thesis using 3 by (simp add: toordinal_def)
  qed
qed

lemma prev_day_funpow:
  assumes "valid_date dt" and "k < toordinal dt"
  shows "valid_date ((prev_day ^^ k) dt) \<and> toordinal ((prev_day ^^ k) dt) + k = toordinal dt"
  using assms(2)
proof (induction k)
  case 0
  show ?case using assms(1) by simp
next
  case (Suc k)
  then have IH: "valid_date ((prev_day ^^ k) dt)" "toordinal ((prev_day ^^ k) dt) + k = toordinal dt"
    by simp_all
  obtain y m d where p: "(prev_day ^^ k) dt = (y, m, d)"
    by (cases "(prev_day ^^ k) dt") auto
  have "1 < toordinal (y, m, d)"
    using IH(2) Suc.prems by (simp add: p)
  then have ne: "(y, m, d) \<noteq> (1, 1, 1)"
    using toordinal_first by auto
  have "valid_date (prev_day (y, m, d))"
    using prev_day_valid IH(1) ne by (simp add: p)
  moreover have "toordinal (prev_day (y, m, d)) + 1 = toordinal (y, m, d)"
    using prev_day_toordinal IH(1) ne by (simp add: p)
  ultimately show ?case using IH(2) by (simp add: p)
qed

lemma toordinal_pos: "valid_date dt \<Longrightarrow> 1 \<le> toordinal dt"
  by (cases dt) (simp add: valid_date_def toordinal_def)

lemma mod7_shift:
  assumes "1 \<le> (n::nat)"
  shows "(n + 6) mod 7 = (n - 1) mod 7"
proof -
  have "n + 6 = (n - 1) + 7" using assms by simp
  then show ?thesis by (simp only: mod_add_self2)
qed

lemma weekday_less: "valid_date dt \<Longrightarrow> weekday dt < toordinal dt"
proof -
  assume "valid_date dt"
  then have n: "1 \<le> toordinal dt" by (rule toordinal_pos)
  have "(toordinal dt - 1) mod 7 \<le> toordinal dt - 1" by (rule mod_less_eq_dividend)
  then show ?thesis using n by (simp add: weekday_def mod7_shift)
qed

lemma week_start_props:
  assumes "valid_date dt"
  shows "valid_date (week_start dt)"
    and "toordinal (week_start dt) + weekday dt = toordinal dt"
    and "weekday (week_start dt) = 0"
proof -
  have a: "valid_date (week_start dt) \<and> toordinal (week_start dt) + weekday dt = toordinal dt"
    unfolding week_start_def using prev_day_funpow [OF assms weekday_less [OF assms]] .
  show "valid_date (week_start dt)" using a by simp
  show b: "toordinal (week_start dt) + weekday dt = toordinal dt" using a by simp
  have n: "1 \<le> toordinal dt" using assms by (rule toordinal_pos)
  have "toordinal (week_start dt) + (toordinal dt - 1) mod 7 = (toordinal dt - 1) + 1"
    using b n by (simp add: weekday_def mod7_shift)
  then have "toordinal (week_start dt) = 7 * ((toordinal dt - 1) div 7) + 1"
    using mult_div_mod_eq [of 7 "toordinal dt - 1"] by linarith
  then show "weekday (week_start dt) = 0" by (simp add: weekday_def)
qed

lemma week_floor_mono:
  fixes a b :: nat
  assumes "1 \<le> a" and "a \<le> b"
  shows "a - (a + 6) mod 7 \<le> b - (b + 6) mod 7"
proof -
  have fl: "n - (n + 6) mod 7 = 7 * ((n - 1) div 7) + 1" if "1 \<le> n" for n :: nat
  proof -
    define m where "m = n - 1"
    have n: "n = m + 1" using that by (simp add: m_def)
    have s: "(n + 6) mod 7 = m mod 7" using mod7_shift [OF that] by (simp add: m_def)
    have le: "m mod 7 \<le> m" by (rule mod_less_eq_dividend)
    have eq: "7 * (m div 7) + m mod 7 = m" by (rule mult_div_mod_eq)
    have "n - m mod 7 = 7 * (m div 7) + 1" using n le eq by linarith
    then show ?thesis by (simp only: s m_def)
  qed
  have "(a - 1) div 7 \<le> (b - 1) div 7"
    using assms(2) by (intro div_le_mono) simp
  then show ?thesis using fl [of a] fl [of b] assms by simp
qed

lemma week_start_mono:
  assumes "valid_date d1" and "valid_date d2" and "d1 \<le> d2"
  shows "week_start d1 \<le> week_start d2"
proof -
  have "toordinal d1 \<le> toordinal d2"
    using assms by (rule toordinal_mono)
  then have "toordinal d1 - weekday d1 \<le> toordinal d2 - weekday d2"
    unfolding weekday_def using week_floor_mono [OF toordinal_pos [OF assms(1)]] by simp
  moreover have "toordinal (week_start d1) = toordinal d1 - weekday d1"
    using week_start_props(2) [OF assms(1)] by simp
  moreover have "toordinal (week_start d2) = toordinal d2 - weekday d2"
    using week_start_props(2) [OF assms(2)] by simp
  ultimately have "toordinal (week_start d1) \<le> toordinal (week_start d2)" by simp
  then show ?thesis
    using toordinal_reflects week_start_props(1) assms(1,2) by blast
qed

lemma week_start_le:
  assumes "valid_date dt"
  shows "week_start dt \<le> dt"
proof -
  have "toordinal (week_start dt) \<le> toordinal dt"
    using week_start_props(2) [OF assms] by simp
  then show ?thesis
    using toordinal_reflects week_start_props(1) assms by blast
qed


lemma time_group_labels:
  "time_group Paiva = Some floor_D"
  "time_group ''Viikko'' = Some period_W_start"
  "time_group ''Kuukausi'' = Some period_M_start"
  "time_group ''Vuosi'' = Some period_Y_start"
  by (simp_all add: time_group_def Paiva_def a_uml_def)

lemma time_group_cases:
  assumes "time_group agg = Some bucket"
  obtains "bucket = floor_D" | "bucket = period_W_start" | "bucket = period_M_start"
    | "bucket = period_Y_start"
  using assms unfolding time_group_def by (auto split: if_splits)

lemma period_W_start_mono:
  assumes "valid_timestamp (y1, m1, d1, u1)" and "valid_timestamp (y2, m2, d2, u2)"
    and "(y1, m1, d1, u1) < (y2, m2, d2, u2)"
  shows "period_W_start (y1, m1, d1, u1) \<le> period_W_start (y2, m2, d2, u2)"
proof -
  have v: "valid_date (y1, m1, d1)" "valid_date (y2, m2, d2)"
    using assms(1,2) by (simp_all add: valid_timestamp_def)
  have "(y1, m1, d1) \<le> (y2, m2, d2)"
    using assms(3) by auto
  then have le: "week_start (y1, m1, d1) \<le> week_start (y2, m2, d2)"
    using v by (intro week_start_mono)
  obtain a1 b1 c1 where w1: "week_start (y1, m1, d1) = (a1, b1, c1)"
    by (cases "week_start (y1, m1, d1)") auto
  obtain a2 b2 c2 where w2: "week_start (y2, m2, d2) = (a2, b2, c2)"
    by (cases "week_start (y2, m2, d2)") auto
  show ?thesis using le by (auto simp: w1 w2)
qed

lemma period_W_start_le:
  assumes "valid_timestamp (y, m, d, us)"
  shows "period_W_start (y, m, d, us) \<le> (y, m, d, us)"
proof -
  have "week_start (y, m, d) \<le> (y, m, d)"
    using assms by (intro week_start_le) (simp add: valid_timestamp_def)
  moreover obtain a b c where w: "week_start (y, m, d) = (a, b, c)"
    by (cases "week_start (y, m, d)") auto
  ultimately show ?thesis by (auto simp: w)
qed

text \<open>
  C6. Each of the four labels selects a bucketing function, and for each of them, on
  timestamps of the calendar: an earlier timestamp never gets a later bucket, and the
  bucket is not after the timestamp. The day bucket is midnight of the same date; the week
  bucket is midnight of a Monday that is at most six days before the date; the month
  bucket is midnight of the first of the same month; the year bucket is midnight of
  January 1 of the same year. Being functions, the buckets are determined by the timestamp.
\<close>

theorem time_group_monotone:
  assumes "valid_timestamp (y, m, d, us)" and "valid_timestamp t2" and "(y, m, d, us) < t2"
    and "time_group time_aggregation = Some bucket"
  shows "bucket (y, m, d, us) \<le> bucket t2
       \<and> bucket (y, m, d, us) \<le> (y, m, d, us)
       \<and> time_group Paiva = Some floor_D
       \<and> time_group ''Viikko'' = Some period_W_start
       \<and> time_group ''Kuukausi'' = Some period_M_start
       \<and> time_group ''Vuosi'' = Some period_Y_start
       \<and> floor_D (y, m, d, us) = (y, m, d, 0)
       \<and> (\<exists>y' m' d'. period_W_start (y, m, d, us) = (y', m', d', 0)
              \<and> valid_date (y', m', d') \<and> weekday (y', m', d') = 0
              \<and> toordinal (y', m', d') \<le> toordinal (y, m, d)
              \<and> toordinal (y, m, d) < toordinal (y', m', d') + 7)
       \<and> period_M_start (y, m, d, us) = (y, m, 1, 0)
       \<and> period_Y_start (y, m, d, us) = (y, 1, 1, 0)"
proof -
  obtain y2 m2 d2 u2 where t2: "t2 = (y2, m2, d2, u2)"
    by (cases t2) auto
  have v: "valid_date (y, m, d)" "1 \<le> m" "1 \<le> d"
    using assms(1) by (simp_all add: valid_timestamp_def valid_date_def)
  have mono: "bucket (y, m, d, us) \<le> bucket t2"
    using assms(4)
  proof (cases rule: time_group_cases)
    case 1
    then show ?thesis using assms(3) by (auto simp: t2)
  next
    case 2
    then show ?thesis using period_W_start_mono assms(1,2,3) by (simp only: t2)
  next
    case 3
    then show ?thesis using assms(3) by (auto simp: t2)
  next
    case 4
    then show ?thesis using assms(3) by (auto simp: t2)
  qed
  have below: "bucket (y, m, d, us) \<le> (y, m, d, us)"
    using assms(4)
  proof (cases rule: time_group_cases)
    case 1
    then show ?thesis by simp
  next
    case 2
    then show ?thesis using period_W_start_le [OF assms(1)] by simp
  next
    case 3
    then show ?thesis using v(3) by auto
  next
    case 4
    then show ?thesis using v(2,3) by auto
  qed
  obtain a b c where w: "week_start (y, m, d) = (a, b, c)"
    by (cases "week_start (y, m, d)") auto
  have wk: "valid_date (a, b, c)" "weekday (a, b, c) = 0"
      "toordinal (a, b, c) + weekday (y, m, d) = toordinal (y, m, d)"
    using week_start_props [OF v(1)] by (simp_all add: w)
  have "weekday (y, m, d) < 7" by (simp add: weekday_def)
  then have "toordinal (a, b, c) \<le> toordinal (y, m, d)"
      "toordinal (y, m, d) < toordinal (a, b, c) + 7"
    using wk(3) by simp_all
  then have week: "\<exists>y' m' d'. period_W_start (y, m, d, us) = (y', m', d', 0)
              \<and> valid_date (y', m', d') \<and> weekday (y', m', d') = 0
              \<and> toordinal (y', m', d') \<le> toordinal (y, m, d)
              \<and> toordinal (y, m, d) < toordinal (y', m', d') + 7"
    using wk(1,2) by (simp add: w)
  show ?thesis
    using mono below week by (simp add: time_group_labels)
qed

lemma valid_timestamp_examples:
  "valid_timestamp (2023, 1, 5, 1000)" "valid_timestamp (2023, 2, 1, 0)"
  by (simp_all add: valid_timestamp_def valid_date_def days_in_month_def day_length_def)

lemma weekday_example: "weekday (2023, 1, 5) = 3"
  by (simp add: weekday_def toordinal_def days_before_year_def days_before_month_def)

lemma period_W_start_example: "period_W_start (2023, 1, 5, 1000) = (2023, 1, 2, 0)"
proof -
  have "week_start (2023, 1, 5) = (prev_day ^^ 3) (2023, 1, 5)"
    by (simp only: week_start_def weekday_example)
  also have "\<dots> = (2023, 1, 2)"
    by (simp add: numeral_3_eq_3)
  finally show ?thesis by simp
qed

theorem time_group_monotone_witness:
  "valid_timestamp (2023, 1, 5, 1000) \<and> valid_timestamp (2023, 2, 1, 0)
   \<and> ((2023, 1, 5, 1000) :: timestamp) < (2023, 2, 1, 0)
   \<and> time_group ''Viikko'' = Some period_W_start
   \<and> period_W_start (2023, 1, 5, 1000) \<le> period_W_start (2023, 2, 1, 0)
   \<and> period_W_start (2023, 1, 5, 1000) \<le> (2023, 1, 5, 1000)"
proof -
  have h3: "((2023, 1, 5, 1000) :: timestamp) < (2023, 2, 1, 0)"
    by simp
  show ?thesis
    using valid_timestamp_examples h3 time_group_labels(2)
      time_group_monotone [OF valid_timestamp_examples h3 time_group_labels(2)]
    by blast
qed

section \<open>The statements that reach the store\<close>













section \<open>A run on a store that the cache agrees with\<close>









section \<open>Counts and percentages\<close>












section \<open>Runs after the store has changed\<close>

lemmas eval_defs = process_rescue_events_def start_datetime_def end_datetime_def
  cached_execute_query_def execute_query_def total_query_def total_params_def
  selected_query_def base_params_def in_clause_def in_params_def dict_def where_rows_def
  bind_datetime_def bind_text_def bind_in_def in_matches_def analyse_def time_group_def
  Paiva_def a_uml_def merged_df_def group_size_def fdiv_def round_half_even_def maxsize_def
  day_length_def Let_def hake_figs_def summary_text_def

lemma total_key_cached:
  "map_of (cache session_before)
     (total_query [] [], Some (total_params (2023, 1, 1, 0) (2023, 12, 31, 86399999999) [] []))
   = Some (Total_rows [((2023, 1, 5, 0), None)])"
  by (simp add: session_before_def store_before_def eval_defs)

lemma selected_key_fresh:
  "map_of (cache session_before)
     (selected_query [''liikenneonnettomuus''] [] [],
      Some (base_params (2023, 1, 1, 0) (2023, 12, 31, 86399999999) [''liikenneonnettomuus''] [] []))
   = None"
  by (simp add: session_before_def store_before_def eval_defs)









section \<open>The station breakdown\<close>

lemma unique_set [simp]: "set (unique xs) = set xs"
  by (simp add: unique_def)












end
